theory Spec2Isabelle
  imports Main "HOL-Library.AList" "HOL-Library.Multiset"
begin

section \<open>Strings\<close>

text \<open>
  A string is a list of code units; the model covers the code units below 256 (Latin-1),
  which is what an Isabelle \<open>char\<close> holds. The four string operations the sources call
  (\<open>toLowerCase\<close>, \<open>trim\<close>, \<open>includes\<close> and the relational \<open><\<close>) are the
  ECMAScript ones restricted to that range.
\<close>

definition upperCaseChars :: "char list" where
  "upperCaseChars = ''ABCDEFGHIJKLMNOPQRSTUVWXYZ'' @
     [CHR 0xC0, CHR 0xC1, CHR 0xC2, CHR 0xC3, CHR 0xC4, CHR 0xC5, CHR 0xC6, CHR 0xC7,
      CHR 0xC8, CHR 0xC9, CHR 0xCA, CHR 0xCB, CHR 0xCC, CHR 0xCD, CHR 0xCE, CHR 0xCF,
      CHR 0xD0, CHR 0xD1, CHR 0xD2, CHR 0xD3, CHR 0xD4, CHR 0xD5, CHR 0xD6,
      CHR 0xD8, CHR 0xD9, CHR 0xDA, CHR 0xDB, CHR 0xDC, CHR 0xDD, CHR 0xDE]"

definition lowerCaseChars :: "char list" where
  "lowerCaseChars = ''abcdefghijklmnopqrstuvwxyz'' @
     [CHR 0xE0, CHR 0xE1, CHR 0xE2, CHR 0xE3, CHR 0xE4, CHR 0xE5, CHR 0xE6, CHR 0xE7,
      CHR 0xE8, CHR 0xE9, CHR 0xEA, CHR 0xEB, CHR 0xEC, CHR 0xED, CHR 0xEE, CHR 0xEF,
      CHR 0xF0, CHR 0xF1, CHR 0xF2, CHR 0xF3, CHR 0xF4, CHR 0xF5, CHR 0xF6,
      CHR 0xF8, CHR 0xF9, CHR 0xFA, CHR 0xFB, CHR 0xFC, CHR 0xFD, CHR 0xFE]"

definition toLowerCaseChar :: "char \<Rightarrow> char" where
  "toLowerCaseChar c =
     (case map_of (zip upperCaseChars lowerCaseChars) c of Some l \<Rightarrow> l | None \<Rightarrow> c)"

definition toLowerCase :: "string \<Rightarrow> string" where
  "toLowerCase s = map toLowerCaseChar s"

text \<open>White space and line terminators of ECMAScript below 256: TAB, LF, VT, FF, CR, SP, NBSP.\<close>

definition isWhiteSpace :: "char \<Rightarrow> bool" where
  "isWhiteSpace c =
     (c \<in> set [CHR 0x09, CHR 0x0A, CHR 0x0B, CHR 0x0C, CHR 0x0D, CHR 0x20, CHR 0xA0])"

definition trim :: "string \<Rightarrow> string" where
  "trim s = rev (dropWhile isWhiteSpace (rev (dropWhile isWhiteSpace s)))"

definition startsWith :: "string \<Rightarrow> string \<Rightarrow> bool" where
  "startsWith s sub = (take (length sub) s = sub)"

text \<open>\<open>s.includes(sub)\<close>: \<open>sub\<close> occurs in \<open>s\<close> as a contiguous run.\<close>

fun includes_str :: "string \<Rightarrow> string \<Rightarrow> bool" where
  "includes_str [] sub = (sub = [])"
| "includes_str (c # cs) sub = (startsWith (c # cs) sub \<or> includes_str cs sub)"

text \<open>\<open>a < b\<close> on strings: lexicographic on code units.\<close>

fun lessThan_str :: "string \<Rightarrow> string \<Rightarrow> bool" where
  "lessThan_str [] [] = False"
| "lessThan_str [] (y # ys) = True"
| "lessThan_str (x # xs) [] = False"
| "lessThan_str (x # xs) (y # ys) =
     ((of_char x :: nat) < of_char y \<or> (x = y \<and> lessThan_str xs ys))"

text \<open>Truthiness of a string that may be \<open>undefined\<close>, and \<open>a || b\<close> on such values.\<close>

fun truthy_str :: "string option \<Rightarrow> bool" where
  "truthy_str None = False"
| "truthy_str (Some s) = (s \<noteq> [])"

definition or_str :: "string option \<Rightarrow> string option \<Rightarrow> string option" where
  "or_str a b = (if truthy_str a then a else b)"

text \<open>A template literal prints a missing property as \<open>undefined\<close>.\<close>

fun template :: "string option \<Rightarrow> string" where
  "template None = ''undefined''"
| "template (Some s) = s"

section \<open>Data model\<close>

subsection \<open>Values\<close>

text \<open>
  A value held in memory or parsed from a response. Numbers are integers here (no number
  is inspected); \<open>JBigInt\<close> is a \<open>bigint\<close>, which \<open>JSON.parse\<close> never yields and
  \<open>JSON.stringify\<close> refuses. (A cyclic object, the other value \<open>JSON.stringify\<close>
  refuses, is not a finite tree and is left out.)
\<close>

datatype JsValue =
    JNull
  | JBool bool
  | JNumber int
  | JBigInt int
  | JString string
  | JArray "JsValue list"
  | JObject "(string \<times> JsValue) list"

text \<open>\<open>JSON.stringify\<close> returns a text for the value, rather than throwing a \<open>TypeError\<close>.\<close>

fun serialisable :: "JsValue \<Rightarrow> bool" where
  "serialisable (JBigInt n) = False"
| "serialisable (JArray xs) = (\<forall>x \<in> set xs. serialisable x)"
| "serialisable (JObject kvs) = (\<forall>v \<in> snd ` set kvs. serialisable v)"
| "serialisable v = True"

subsection \<open>Host messages\<close>

text \<open>
  \<open>Message\<close>, \<open>MessageRole\<close> and \<open>TextMessage\<close> are imported from the
  runtime client package. The service names three members of \<open>MessageRole\<close> and sends every
  other member to a \<open>default\<close> branch; \<open>OtherRole\<close> stands for such a member. A message
  is one of the five kinds the service tests for, or none of them; each kind carries the
  properties the service reads. An action-execution message also has its \<open>arguments\<close> and
  an agent-state message its \<open>state\<close>, of any value (the last argument of each): the
  service does not read them, but \<open>originalMessage: message\<close> hands the whole message to
  \<open>JSON.stringify\<close>.
\<close>

datatype MessageRole = User | Assistant | System | OtherRole string

datatype Date = NewDate string

datatype Message =
    TextMessage string MessageRole string Date
  | ActionExecutionMessage string string JsValue
  | ResultMessage string string
  | AgentStateMessage string MessageRole string JsValue
  | ImageMessage string MessageRole
  | UnknownMessage string

text \<open>\<open>message.id\<close>\<close>

fun messageId_of :: "Message \<Rightarrow> string" where
  "messageId_of (TextMessage i r c d) = i"
| "messageId_of (ActionExecutionMessage i n args) = i"
| "messageId_of (ResultMessage i res) = i"
| "messageId_of (AgentStateMessage i r a st) = i"
| "messageId_of (ImageMessage i r) = i"
| "messageId_of (UnknownMessage i) = i"

fun isTextMessage :: "Message \<Rightarrow> bool" where
  "isTextMessage (TextMessage i r c d) = True"
| "isTextMessage m = False"

text \<open>\<open>JSON.stringify\<close> of the message does not throw.\<close>

fun serialisable_message :: "Message \<Rightarrow> bool" where
  "serialisable_message (ActionExecutionMessage i n args) = serialisable args"
| "serialisable_message (AgentStateMessage i r a st) = serialisable st"
| "serialisable_message m = True"

subsection \<open>Wire types\<close>

record MessageMetadata =
  type_md :: string
  messageId_md :: string
  originalMessage_md :: "Message option"

text \<open>\<open>Omit<ConversationMessage, 'id' | 'createdAt' | 'updatedAt'>\<close>: the body of a save request.\<close>

record ApiMessageDraft =
  conversationId_d :: string
  userId_d :: string
  role_d :: string
  content_d :: string
  messageMetadata_d :: MessageMetadata

record ConversationMessage =
  id_m :: string
  conversationId_m :: string
  userId_m :: string
  role_m :: string
  content_m :: string
  createdAt_m :: string
  updatedAt_m :: string
  messageMetadata_m :: "MessageMetadata option"

record Conversation =
  id_c :: string
  userId_c :: string
  title :: string
  createdAt_c :: string
  updatedAt_c :: string
  lastMessage :: "string option"
  messageCount :: "int option"

subsection \<open>Configuration\<close>

record Endpoints =
  conversations_ep :: "string option"
  messages_ep :: "string option"
  create_ep :: "string option"
  delete_ep :: "string option"

text \<open>
  An optional property of the caller's configuration is not there (\<open>Absent\<close>), is there
  with the value \<open>undefined\<close> (\<open>Undefined\<close>), or is there with a value. The spread in
  the constructor tells the first two apart.
\<close>

datatype 'a Optional = Absent | Undefined | Present 'a

record ConversationConfig =
  apiBaseUrl :: string
  userId :: string
  headers :: "(string \<times> string) list Optional"
  autoSave :: "bool Optional"
  endpoints :: "Endpoints Optional"

text \<open>
  \<open>this.config\<close> of a \<open>ConversationService\<close>. Reading a property gives its value, or
  \<open>undefined\<close> (\<open>None\<close>).
\<close>

record ServiceConfig =
  this_apiBaseUrl :: string
  this_userId :: string
  this_headers :: "(string \<times> string) list option"
  this_autoSave :: "bool option"
  this_endpoints :: "Endpoints option"

definition defaultEndpoints :: Endpoints where
  "defaultEndpoints =
     \<lparr>conversations_ep = Some ''/conversations'', messages_ep = Some ''/messages'',
      create_ep = Some ''/conversations'', delete_ep = Some ''/conversations''\<rparr>"

text \<open>
  The constructor: \<open>{autoSave: true, endpoints: {...}, ...config}\<close>. A property the
  caller's configuration has, be it with the value \<open>undefined\<close>, replaces the default as
  a whole; only an absent property leaves the default in place.
\<close>

definition ConversationService :: "ConversationConfig \<Rightarrow> ServiceConfig" where
  "ConversationService config =
     \<lparr>this_apiBaseUrl = apiBaseUrl config,
      this_userId = userId config,
      this_headers = (case headers config of Present h \<Rightarrow> Some h | _ \<Rightarrow> None),
      this_autoSave =
        (case autoSave config of Absent \<Rightarrow> Some True | Undefined \<Rightarrow> None | Present b \<Rightarrow> Some b),
      this_endpoints =
        (case endpoints config of
           Absent \<Rightarrow> Some defaultEndpoints | Undefined \<Rightarrow> None | Present e \<Rightarrow> Some e)\<rparr>"

section \<open>Message codec\<close>

fun getMessageRole :: "Message \<Rightarrow> MessageRole" where
  "getMessageRole (TextMessage i r c d) = r"
| "getMessageRole (AgentStateMessage i r a st) = r"
| "getMessageRole (ImageMessage i r) = r"
| "getMessageRole m = Assistant"

definition mapApiRoleToCopilotRole :: "string \<Rightarrow> MessageRole" where
  "mapApiRoleToCopilotRole apiRole =
     (let l = toLowerCase apiRole
      in if l = ''user'' then User
         else if l = ''assistant'' then Assistant
         else if l = ''system'' then System
         else User)"

fun mapCopilotRoleToApiRole :: "MessageRole \<Rightarrow> string" where
  "mapCopilotRoleToApiRole User = ''user''"
| "mapCopilotRoleToApiRole Assistant = ''assistant''"
| "mapCopilotRoleToApiRole System = ''system''"
| "mapCopilotRoleToApiRole r = ''user''"

fun extractMessageContent :: "Message \<Rightarrow> string" where
  "extractMessageContent (TextMessage i r c d) = c"
| "extractMessageContent (ActionExecutionMessage i n args) = ''Action: '' @ n"
| "extractMessageContent (ResultMessage i res) = ''Result: '' @ res"
| "extractMessageContent (AgentStateMessage i r a st) = ''Agent State: '' @ a"
| "extractMessageContent (ImageMessage i r) = ''[Image Message]''"
| "extractMessageContent (UnknownMessage i) = ''Unknown message type''"

fun getMessageType :: "Message \<Rightarrow> string" where
  "getMessageType (TextMessage i r c d) = ''text''"
| "getMessageType (ActionExecutionMessage i n args) = ''action''"
| "getMessageType (ResultMessage i res) = ''result''"
| "getMessageType (AgentStateMessage i r a st) = ''agent_state''"
| "getMessageType (ImageMessage i r) = ''image''"
| "getMessageType (UnknownMessage i) = ''unknown''"

definition convertCopilotMessageToApiMessage ::
  "ServiceConfig \<Rightarrow> Message \<Rightarrow> string \<Rightarrow> ApiMessageDraft" where
  "convertCopilotMessageToApiMessage config message conversationId =
     \<lparr>conversationId_d = conversationId,
      userId_d = this_userId config,
      role_d = mapCopilotRoleToApiRole (getMessageRole message),
      content_d = extractMessageContent message,
      messageMetadata_d =
        \<lparr>type_md = getMessageType message,
         messageId_md = messageId_of message,
         originalMessage_md = Some message\<rparr>\<rparr>"

text \<open>
  The body of the \<open>map\<close> callback of \<open>convertApiMessagesToCopilotMessages\<close>; the guarded
  and the fall-through \<open>return\<close> are kept apart as in the source.
\<close>

definition convertApiMessage :: "ConversationMessage \<Rightarrow> Message" where
  "convertApiMessage apiMessage =
     (let role = mapApiRoleToCopilotRole (role_m apiMessage)
      in if (case messageMetadata_m apiMessage of
               None \<Rightarrow> False | Some md \<Rightarrow> type_md md = ''text'')
            \<or> messageMetadata_m apiMessage = None
         then TextMessage (id_m apiMessage) role (content_m apiMessage)
                (NewDate (createdAt_m apiMessage))
         else TextMessage (id_m apiMessage) role (content_m apiMessage)
                (NewDate (createdAt_m apiMessage)))"

definition convertApiMessagesToCopilotMessages :: "ConversationMessage list \<Rightarrow> Message list" where
  "convertApiMessagesToCopilotMessages apiMessages = map convertApiMessage apiMessages"


section \<open>Persistence client\<close>

subsection \<open>Transport, responses and the observable world\<close>

datatype JsError = Error string | TypeError string | SyntaxError string

text \<open>
  The body of a request is the JSON text of one of three values; the value stands for
  its text.
\<close>

datatype RequestBody =
    MessageBody ApiMessageDraft
  | CreateBody string string
  | UpdateBody "(string \<times> JsValue) list"

text \<open>
  \<open>JSON.stringify\<close> on the three values: it throws on a \<open>bigint\<close>, which only the
  original message inside a message body and the values of an update can hold.
\<close>

fun serialisable_body :: "RequestBody \<Rightarrow> bool" where
  "serialisable_body (MessageBody apiMessage) =
     (case originalMessage_md (messageMetadata_d apiMessage) of
        None \<Rightarrow> True
      | Some message \<Rightarrow> serialisable_message message)"
| "serialisable_body (CreateBody user title') = True"
| "serialisable_body (UpdateBody updates) = serialisable (JObject updates)"

definition stringify :: "RequestBody \<Rightarrow> JsError + RequestBody" where
  "stringify b =
     (if serialisable_body b then Inr b
      else Inl (TypeError ''Do not know how to serialize a BigInt''))"

text \<open>
  What \<open>this.config.endpoints!.conversations\<close> throws when \<open>endpoints\<close> is
  \<open>undefined\<close> (the wording is the engine's).
\<close>

definition undefinedEndpoints :: JsError where
  "undefinedEndpoints = TypeError ''Cannot read properties of undefined''"

record Request =
  method_r :: string
  url :: string
  headers_r :: "(string \<times> string) list"
  body :: "RequestBody option"

text \<open>
  A response: its status line and what \<open>response.json()\<close> resolves to (\<open>Inr\<close>) or
  rejects with (\<open>Inl\<close>). The type of the parsed body is the one the calling operation
  declares for it.
\<close>

record 'b Response =
  status :: nat
  statusText :: string
  json :: "JsError + 'b"

definition ok :: "'b Response \<Rightarrow> bool" where
  "ok response = (200 \<le> status response \<and> status response \<le> 299)"

text \<open>\<open>fetch\<close> rejects (no response) or resolves with a response, whatever its status.\<close>

datatype 'b FetchOutcome = Rejected JsError | Responded "'b Response"

type_synonym 'b Transport = "Request \<Rightarrow> 'b FetchOutcome"

text \<open>The transport on which every \<open>fetch\<close> has the given outcome.\<close>

definition always :: "'b FetchOutcome \<Rightarrow> 'b Transport" where
  "always outcome request = outcome"

text \<open>What a call leaves behind: the requests sent and the lines of \<open>console.error\<close>.\<close>

record World =
  requests :: "Request list"
  console :: "(string \<times> JsError) list"

type_synonym ('a, 'w) Promise = "'w \<Rightarrow> (JsError + 'a) \<times> 'w"

definition fetch :: "'b Transport \<Rightarrow> Request \<Rightarrow> 'w World_scheme \<Rightarrow> 'b FetchOutcome \<times> 'w World_scheme" where
  "fetch net request w = (net request, w\<lparr>requests := requests w @ [request]\<rparr>)"

definition console_error :: "string \<Rightarrow> JsError \<Rightarrow> 'w World_scheme \<Rightarrow> 'w World_scheme" where
  "console_error label e w = w\<lparr>console := console w @ [(label, e)]\<rparr>"

text \<open>\<open>catch (error) { console.error(label, error); throw error; }\<close>\<close>

definition catch_rethrow ::
  "string \<Rightarrow> ('a, 'w World_scheme) Promise \<Rightarrow> ('a, 'w World_scheme) Promise" where
  "catch_rethrow label block w =
     (case block w of
        (Inl e, w1) \<Rightarrow> (Inl e, console_error label e w1)
      | (Inr v, w1) \<Rightarrow> (Inr v, w1))"

text \<open>\<open>catch (error) { console.error(label, error); }\<close>: the function then returns normally.\<close>

definition catch_swallow ::
  "string \<Rightarrow> (unit, 'w World_scheme) Promise \<Rightarrow> (unit, 'w World_scheme) Promise" where
  "catch_swallow label block w =
     (case block w of
        (Inl e, w1) \<Rightarrow> (Inr (), console_error label e w1)
      | (Inr v, w1) \<Rightarrow> (Inr v, w1))"

text \<open>\<open>{'Content-Type': 'application/json', ...this.config.headers}\<close>\<close>

definition requestHeaders :: "ServiceConfig \<Rightarrow> (string \<times> string) list" where
  "requestHeaders config =
     fold (\<lambda>(k, v). AList.update k v)
       (case this_headers config of None \<Rightarrow> [] | Some h \<Rightarrow> h)
       [(''Content-Type'', ''application/json'')]"

subsection \<open>Operations\<close>

text \<open>
  Each operation is its \<open>try\<close> block, named \<open>_try\<close>, under its \<open>catch\<close> clause.
  A \<open>throw\<close> and a rejected \<open>await\<close> leave the block with \<open>Inl\<close>. The arguments of
  \<open>fetch\<close> are evaluated before the call, inside the block: first the URL, which reads
  \<open>this.config.endpoints\<close>, then the body, which calls \<open>JSON.stringify\<close>; when either
  throws, no request is sent.
\<close>

definition getConversations_try ::
  "ServiceConfig \<Rightarrow> JsValue Transport \<Rightarrow> (JsValue list, 'w World_scheme) Promise" where
  "getConversations_try config net w =
     (case this_endpoints config of
        None \<Rightarrow> (Inl undefinedEndpoints, w)
      | Some ep \<Rightarrow>
         (case fetch net
                 \<lparr>method_r = ''GET'',
                  url = this_apiBaseUrl config @ template (conversations_ep ep)
                        @ ''?userId='' @ this_userId config,
                  headers_r = requestHeaders config,
                  body = None\<rparr> w of
            (Rejected e, w1) \<Rightarrow> (Inl e, w1)
          | (Responded response, w1) \<Rightarrow>
              if \<not> ok response
              then (Inl (Error (''Failed to fetch conversations: '' @ statusText response)), w1)
              else (case json response of
                      Inl e \<Rightarrow> (Inl e, w1)
                    | Inr conversations \<Rightarrow>
                        (Inr (case conversations of JArray xs \<Rightarrow> xs | _ \<Rightarrow> []), w1))))"

definition getConversations ::
  "ServiceConfig \<Rightarrow> JsValue Transport \<Rightarrow> (JsValue list, 'w World_scheme) Promise" where
  "getConversations config net =
     catch_rethrow ''Error fetching conversations:'' (getConversations_try config net)"

definition getConversationMessages_try ::
  "ServiceConfig \<Rightarrow> ConversationMessage list Transport \<Rightarrow> string
     \<Rightarrow> (Message list, 'w World_scheme) Promise" where
  "getConversationMessages_try config net conversationId w =
     (case this_endpoints config of
        None \<Rightarrow> (Inl undefinedEndpoints, w)
      | Some ep \<Rightarrow>
         (case fetch net
                 \<lparr>method_r = ''GET'',
                  url = this_apiBaseUrl config @ template (conversations_ep ep)
                        @ ''/'' @ conversationId @ ''/messages'',
                  headers_r = requestHeaders config,
                  body = None\<rparr> w of
            (Rejected e, w1) \<Rightarrow> (Inl e, w1)
          | (Responded response, w1) \<Rightarrow>
              if \<not> ok response
              then (Inl (Error (''Failed to fetch conversation messages: '' @ statusText response)), w1)
              else (case json response of
                      Inl e \<Rightarrow> (Inl e, w1)
                    | Inr apiMessages \<Rightarrow>
                        (Inr (convertApiMessagesToCopilotMessages apiMessages), w1))))"

definition getConversationMessages ::
  "ServiceConfig \<Rightarrow> ConversationMessage list Transport \<Rightarrow> string
     \<Rightarrow> (Message list, 'w World_scheme) Promise" where
  "getConversationMessages config net conversationId =
     catch_rethrow ''Error fetching conversation messages:''
       (getConversationMessages_try config net conversationId)"

text \<open>The body of a successful create: any of three keys may hold the new id.\<close>

record CreateResult =
  id_cr :: "string option"
  conversationId_cr :: "string option"
  underscore_id_cr :: "string option"

text \<open>
  \<open>now\<close> is \<open>new Date().toLocaleString()\<close> at the time of the call. The result is
  \<open>None\<close> when the last alternative of the \<open>||\<close> chain is \<open>undefined\<close>.
\<close>

definition createConversation_try ::
  "ServiceConfig \<Rightarrow> CreateResult Transport \<Rightarrow> string \<Rightarrow> string option
     \<Rightarrow> (string option, 'w World_scheme) Promise" where
  "createConversation_try config net now title_opt w =
     (case this_endpoints config of
        None \<Rightarrow> (Inl undefinedEndpoints, w)
      | Some ep \<Rightarrow>
         (case stringify (CreateBody (this_userId config)
                            (if truthy_str title_opt then template title_opt
                             else ''Conversation '' @ now)) of
            Inl e \<Rightarrow> (Inl e, w)
          | Inr text' \<Rightarrow>
             (case fetch net
                     \<lparr>method_r = ''POST'',
                      url = this_apiBaseUrl config @ template (create_ep ep),
                      headers_r = requestHeaders config,
                      body = Some text'\<rparr> w of
                (Rejected e, w1) \<Rightarrow> (Inl e, w1)
              | (Responded response, w1) \<Rightarrow>
                  if \<not> ok response
                  then (Inl (Error (''Failed to create conversation: '' @ statusText response)), w1)
                  else (case json response of
                          Inl e \<Rightarrow> (Inl e, w1)
                        | Inr result \<Rightarrow>
                            (Inr (or_str (or_str (id_cr result) (conversationId_cr result))
                                    (underscore_id_cr result)), w1)))))"

definition createConversation ::
  "ServiceConfig \<Rightarrow> CreateResult Transport \<Rightarrow> string \<Rightarrow> string option
     \<Rightarrow> (string option, 'w World_scheme) Promise" where
  "createConversation config net now title_opt =
     catch_rethrow ''Error creating conversation:'' (createConversation_try config net now title_opt)"

definition deleteConversation_try ::
  "ServiceConfig \<Rightarrow> 'b Transport \<Rightarrow> string \<Rightarrow> (unit, 'w World_scheme) Promise" where
  "deleteConversation_try config net conversationId w =
     (case this_endpoints config of
        None \<Rightarrow> (Inl undefinedEndpoints, w)
      | Some ep \<Rightarrow>
         (case fetch net
                 \<lparr>method_r = ''DELETE'',
                  url = this_apiBaseUrl config @ template (delete_ep ep)
                        @ ''/'' @ conversationId,
                  headers_r = requestHeaders config,
                  body = None\<rparr> w of
            (Rejected e, w1) \<Rightarrow> (Inl e, w1)
          | (Responded response, w1) \<Rightarrow>
              if \<not> ok response
              then (Inl (Error (''Failed to delete conversation: '' @ statusText response)), w1)
              else (Inr (), w1)))"

definition deleteConversation ::
  "ServiceConfig \<Rightarrow> 'b Transport \<Rightarrow> string \<Rightarrow> (unit, 'w World_scheme) Promise" where
  "deleteConversation config net conversationId =
     catch_rethrow ''Error deleting conversation:'' (deleteConversation_try config net conversationId)"

definition saveMessage_try ::
  "ServiceConfig \<Rightarrow> 'b Transport \<Rightarrow> Message \<Rightarrow> string \<Rightarrow> (unit, 'w World_scheme) Promise" where
  "saveMessage_try config net message conversationId w =
     (let apiMessage = convertCopilotMessageToApiMessage config message conversationId
      in case this_endpoints config of
           None \<Rightarrow> (Inl undefinedEndpoints, w)
         | Some ep \<Rightarrow>
            (case stringify (MessageBody apiMessage) of
               Inl e \<Rightarrow> (Inl e, w)
             | Inr text' \<Rightarrow>
                (case fetch net
                        \<lparr>method_r = ''POST'',
                         url = this_apiBaseUrl config @ template (conversations_ep ep)
                               @ ''/'' @ conversationId @ ''/messages'',
                         headers_r = requestHeaders config,
                         body = Some text'\<rparr> w of
                   (Rejected e, w1) \<Rightarrow> (Inl e, w1)
                 | (Responded response, w1) \<Rightarrow>
                     if \<not> ok response
                     then (Inl (Error (''Failed to save message: '' @ statusText response)), w1)
                     else (Inr (), w1))))"

text \<open>\<open>if (!this.config.autoSave) return;\<close>: \<open>false\<close> and \<open>undefined\<close> both return.\<close>

definition saveMessage ::
  "ServiceConfig \<Rightarrow> 'b Transport \<Rightarrow> Message \<Rightarrow> string \<Rightarrow> (unit, 'w World_scheme) Promise" where
  "saveMessage config net message conversationId w =
     (if this_autoSave config \<noteq> Some True then (Inr (), w)
      else catch_swallow ''Error saving message:''
             (saveMessage_try config net message conversationId) w)"

definition updateConversation_try ::
  "ServiceConfig \<Rightarrow> 'b Transport \<Rightarrow> string \<Rightarrow> (string \<times> JsValue) list
     \<Rightarrow> (unit, 'w World_scheme) Promise" where
  "updateConversation_try config net conversationId updates w =
     (case this_endpoints config of
        None \<Rightarrow> (Inl undefinedEndpoints, w)
      | Some ep \<Rightarrow>
         (case stringify (UpdateBody updates) of
            Inl e \<Rightarrow> (Inl e, w)
          | Inr text' \<Rightarrow>
             (case fetch net
                     \<lparr>method_r = ''PATCH'',
                      url = this_apiBaseUrl config @ template (conversations_ep ep)
                            @ ''/'' @ conversationId,
                      headers_r = requestHeaders config,
                      body = Some text'\<rparr> w of
                (Rejected e, w1) \<Rightarrow> (Inl e, w1)
              | (Responded response, w1) \<Rightarrow>
                  if \<not> ok response
                  then (Inl (Error (''Failed to update conversation: '' @ statusText response)), w1)
                  else (Inr (), w1))))"

definition updateConversation ::
  "ServiceConfig \<Rightarrow> 'b Transport \<Rightarrow> string \<Rightarrow> (string \<times> JsValue) list
     \<Rightarrow> (unit, 'w World_scheme) Promise" where
  "updateConversation config net conversationId updates =
     catch_rethrow ''Error updating conversation:''
       (updateConversation_try config net conversationId updates)"

section \<open>Hooks\<close>

record ConversationState =
  conversations :: "Conversation list"
  currentConversationId :: "string option"
  isLoading :: bool
  error_s :: "string option"
  initialized :: bool

text \<open>What a hook callback can touch: the network and console, and the provider's state.\<close>

record AppWorld = World +
  conversationState :: ConversationState

text \<open>
  \<open>ConversationMethods\<close>: the provider's implementations reach the hooks through the
  context, so they are arbitrary actions on the world here.
\<close>

record ConversationMethods =
  loadConversations_cm :: "(unit, AppWorld) Promise"
  loadConversation_cm :: "string \<Rightarrow> (Message list option, AppWorld) Promise"
  createConversation_cm :: "string option \<Rightarrow> (string, AppWorld) Promise"
  deleteConversation_cm :: "string \<Rightarrow> (unit, AppWorld) Promise"
  setCurrentConversation_cm :: "string option \<Rightarrow> AppWorld \<Rightarrow> AppWorld"
  saveMessage_cm :: "Message \<Rightarrow> (unit, AppWorld) Promise"
  clearError_cm :: "AppWorld \<Rightarrow> AppWorld"
  refreshConversations_cm :: "(unit, AppWorld) Promise"

record CopilotContext =
  conversationConfig :: "ConversationConfig option"
  conversationMethods :: ConversationMethods

text \<open>\<open>isEnabled: !!conversationConfig\<close>; a configuration object is truthy.\<close>

definition isEnabled :: "CopilotContext \<Rightarrow> bool" where
  "isEnabled context = (conversationConfig context \<noteq> None)"

text \<open>
  The effect of \<open>useCopilotConversationHistory\<close>, which runs after a render; it
  starts the load and does not look at its outcome.
\<close>

definition autoLoadEffect :: "CopilotContext \<Rightarrow> AppWorld \<Rightarrow> AppWorld" where
  "autoLoadEffect context w =
     (if isEnabled context \<and> \<not> initialized (conversationState w) \<and> \<not> isLoading (conversationState w)
      then snd (loadConversations_cm (conversationMethods context) w)
      else w)"

definition refresh :: "CopilotContext \<Rightarrow> (unit, AppWorld) Promise" where
  "refresh context w =
     (if \<not> isEnabled context then (Inr (), w)
      else refreshConversations_cm (conversationMethods context) w)"

definition switchToConversation :: "CopilotContext \<Rightarrow> string \<Rightarrow> (unit, AppWorld) Promise" where
  "switchToConversation context conversationId w =
     (if \<not> isEnabled context then (Inr (), w)
      else (case loadConversation_cm (conversationMethods context) conversationId
                   (setCurrentConversation_cm (conversationMethods context) (Some conversationId) w) of
              (Inl e, w1) \<Rightarrow> (Inl e, w1)
            | (Inr messages, w1) \<Rightarrow> (Inr (), w1)))"

definition clearCurrentConversation :: "CopilotContext \<Rightarrow> AppWorld \<Rightarrow> AppWorld" where
  "clearCurrentConversation context w =
     (if \<not> isEnabled context then w
      else setCurrentConversation_cm (conversationMethods context) None w)"

definition createNewConversation ::
  "CopilotContext \<Rightarrow> string option \<Rightarrow> (string, AppWorld) Promise" where
  "createNewConversation context title_opt w =
     (if \<not> isEnabled context then (Inr [], w)
      else (case createConversation_cm (conversationMethods context) title_opt w of
              (Inl e, w1) \<Rightarrow> (Inl e, w1)
            | (Inr conversationId, w1) \<Rightarrow>
                (case refreshConversations_cm (conversationMethods context) w1 of
                   (Inl e, w2) \<Rightarrow> (Inl e, w2)
                 | (Inr u, w2) \<Rightarrow> (Inr conversationId, w2))))"

definition removeConversation :: "CopilotContext \<Rightarrow> string \<Rightarrow> (unit, AppWorld) Promise" where
  "removeConversation context conversationId w =
     (if \<not> isEnabled context then (Inr (), w)
      else deleteConversation_cm (conversationMethods context) conversationId w)"

subsection \<open>Search\<close>

definition searchConversations :: "CopilotContext \<Rightarrow> ConversationState \<Rightarrow> string \<Rightarrow> Conversation list" where
  "searchConversations context st query =
     (if \<not> isEnabled context \<or> trim query = [] then conversations st
      else (let lowerQuery = toLowerCase query
            in filter (\<lambda>conversation.
                         includes_str (toLowerCase (title conversation)) lowerQuery \<or>
                         (case lastMessage conversation of
                            None \<Rightarrow> False
                          | Some m \<Rightarrow> includes_str (toLowerCase m) lowerQuery))
                 (conversations st)))"

definition filterConversations ::
  "CopilotContext \<Rightarrow> ConversationState \<Rightarrow> (Conversation \<Rightarrow> bool) \<Rightarrow> Conversation list" where
  "filterConversations context st predicate =
     (if \<not> isEnabled context then [] else filter predicate (conversations st))"

subsection \<open>Sorting\<close>

datatype SortKey = Title | CreatedAt | UpdatedAt | MessageCount | OtherKey

datatype SortOrder = Asc | Desc

text \<open>
  The values the comparator compares: a lower-cased title, or a number. \<open>getTime\<close> of an
  unparsable date is \<open>NaN\<close>, and every comparison with \<open>NaN\<close> is false.
\<close>

datatype SortValue = StringValue string | NumberValue int | NaN

fun lessThan_v :: "SortValue \<Rightarrow> SortValue \<Rightarrow> bool" where
  "lessThan_v (StringValue a) (StringValue b) = lessThan_str a b"
| "lessThan_v (NumberValue a) (NumberValue b) = (a < b)"
| "lessThan_v a b = False"

definition greaterThan_v :: "SortValue \<Rightarrow> SortValue \<Rightarrow> bool" where
  "greaterThan_v a b = lessThan_v b a"

text \<open>\<open>new Date(s).getTime()\<close>, given the parser of date strings.\<close>

definition timeValue :: "(string \<Rightarrow> int option) \<Rightarrow> string \<Rightarrow> SortValue" where
  "timeValue getTime s = (case getTime s of None \<Rightarrow> NaN | Some t \<Rightarrow> NumberValue t)"

text \<open>\<open>a.messageCount || 0\<close>\<close>

definition messageCountOrZero :: "Conversation \<Rightarrow> SortValue" where
  "messageCountOrZero a = (case messageCount a of None \<Rightarrow> NumberValue 0 | Some n \<Rightarrow> NumberValue n)"

text \<open>The \<open>switch\<close> of the comparator; \<open>None\<close> is its \<open>default: return 0\<close>.\<close>

fun sortValue :: "(string \<Rightarrow> int option) \<Rightarrow> SortKey \<Rightarrow> Conversation \<Rightarrow> SortValue option" where
  "sortValue getTime Title a = Some (StringValue (toLowerCase (title a)))"
| "sortValue getTime CreatedAt a = Some (timeValue getTime (createdAt_c a))"
| "sortValue getTime UpdatedAt a = Some (timeValue getTime (updatedAt_c a))"
| "sortValue getTime MessageCount a = Some (messageCountOrZero a)"
| "sortValue getTime OtherKey a = None"

definition compareFn ::
  "(string \<Rightarrow> int option) \<Rightarrow> SortKey \<Rightarrow> SortOrder \<Rightarrow> Conversation \<Rightarrow> Conversation \<Rightarrow> int" where
  "compareFn getTime sortBy order' a b =
     (case (sortValue getTime sortBy a, sortValue getTime sortBy b) of
        (Some aValue, Some bValue) \<Rightarrow>
          if order' = Asc
          then (if lessThan_v aValue bValue then - 1
                else if greaterThan_v aValue bValue then 1 else 0)
          else (if greaterThan_v aValue bValue then - 1
                else if lessThan_v aValue bValue then 1 else 0)
      | _ \<Rightarrow> 0)"

text \<open>
  \<open>Array.prototype.sort\<close> belongs to the engine, so it is a parameter: a function from
  a comparator and the elements of an array to their new arrangement.
\<close>

type_synonym 'a SortEngine = "('a \<Rightarrow> 'a \<Rightarrow> int) \<Rightarrow> 'a list \<Rightarrow> 'a list"

text \<open>
  Arrays are objects: a reference is an index into the heap of arrays, and the array
  literal and the spread allocate. \<open>sort\<close> rearranges the array it is called on.
\<close>

type_synonym ref = nat

type_synonym heap = "Conversation list list"

definition alloc :: "heap \<Rightarrow> Conversation list \<Rightarrow> ref \<times> heap" where
  "alloc h xs = (length h, h @ [xs])"

definition sort_in_place ::
  "Conversation SortEngine \<Rightarrow> (Conversation \<Rightarrow> Conversation \<Rightarrow> int) \<Rightarrow> ref \<Rightarrow> heap \<Rightarrow> ref \<times> heap" where
  "sort_in_place engine cmp r h = (r, h[r := engine cmp (h ! r)])"

definition sortConversations ::
  "Conversation SortEngine \<Rightarrow> CopilotContext \<Rightarrow> (string \<Rightarrow> int option) \<Rightarrow> heap \<Rightarrow> ref
     \<Rightarrow> SortKey \<Rightarrow> SortOrder \<Rightarrow> ref \<times> heap" where
  "sortConversations engine context getTime h conversations_ref sortBy order' =
     (if \<not> isEnabled context then alloc h []
      else (case alloc h (h ! conversations_ref) of
              (copy, h1) \<Rightarrow> sort_in_place engine (compareFn getTime sortBy order') copy h1))"

subsection \<open>What the language fixes about the engine's sort\<close>

text \<open>
  A consistent comparison function for a set of values, as ECMAScript defines it:
  \<open>=\<close>, \<open><\<close> and \<open>>\<close> by the comparator are reflexive and symmetric, respectively
  transitive.
\<close>

definition consistent_on :: "'a set \<Rightarrow> ('a \<Rightarrow> 'a \<Rightarrow> int) \<Rightarrow> bool" where
  "consistent_on A cmp =
     (\<forall>a \<in> A. \<forall>b \<in> A. \<forall>c \<in> A.
        cmp a a = 0
        \<and> (cmp a b = 0 \<longrightarrow> cmp b a = 0)
        \<and> (cmp a b = 0 \<and> cmp b c = 0 \<longrightarrow> cmp a c = 0)
        \<and> (cmp a b < 0 \<and> cmp b c < 0 \<longrightarrow> cmp a c < 0)
        \<and> (cmp a b > 0 \<and> cmp b c > 0 \<longrightarrow> cmp a c > 0))"

text \<open>
  For a consistent comparator the result of \<open>sort\<close> is determined: the elements in
  ascending order by the comparator, equal ones in their former order. The stable
  insertion sort computes that arrangement.
\<close>

fun insert_sorted :: "('a \<Rightarrow> 'a \<Rightarrow> int) \<Rightarrow> 'a \<Rightarrow> 'a list \<Rightarrow> 'a list" where
  "insert_sorted cmp x [] = [x]"
| "insert_sorted cmp x (y # ys) =
     (if cmp x y \<le> 0 then x # y # ys else y # insert_sorted cmp x ys)"

definition stable_sort :: "'a SortEngine" where
  "stable_sort cmp xs = foldr (insert_sorted cmp) xs []"

text \<open>
  What every engine does: the result is a rearrangement of the elements, and for a
  comparator that is consistent on them it is the stable sorted one. For any other
  comparator the order is the engine's own.
\<close>

definition ecmaSort :: "'a SortEngine \<Rightarrow> bool" where
  "ecmaSort engine =
     (\<forall>cmp xs. mset (engine cmp xs) = mset xs
        \<and> (consistent_on (set xs) cmp \<longrightarrow> engine cmp xs = stable_sort cmp xs))"

text \<open>Sort values that \<open><\<close> can order: two strings or two numbers, neither \<open>NaN\<close>.\<close>

fun sameKind :: "SortValue \<Rightarrow> SortValue \<Rightarrow> bool" where
  "sameKind (StringValue a) (StringValue b) = True"
| "sameKind (NumberValue a) (NumberValue b) = True"
| "sameKind a b = False"

text \<open>Every date the chosen key reads parses.\<close>

definition validDates :: "(string \<Rightarrow> int option) \<Rightarrow> SortKey \<Rightarrow> Conversation set \<Rightarrow> bool" where
  "validDates getTime sortBy A =
     ((sortBy = CreatedAt \<longrightarrow> (\<forall>a \<in> A. getTime (createdAt_c a) \<noteq> None))
      \<and> (sortBy = UpdatedAt \<longrightarrow> (\<forall>a \<in> A. getTime (updatedAt_c a) \<noteq> None)))"

section \<open>Example values\<close>

definition exampleUserConfig :: ConversationConfig where
  "exampleUserConfig =
     \<lparr>apiBaseUrl = ''https://api.example.com'', userId = ''user-123'',
      headers = Present [(''Authorization'', ''Bearer t'')], autoSave = Absent, endpoints = Absent\<rparr>"

definition exampleConfig :: ServiceConfig where
  "exampleConfig = ConversationService exampleUserConfig"

text \<open>The same configuration with \<open>autoSave\<close> set.\<close>

definition autoSaveOn :: ConversationConfig where
  "autoSaveOn = exampleUserConfig\<lparr>autoSave := Present True\<rparr>"

definition autoSaveOff :: ConversationConfig where
  "autoSaveOff = exampleUserConfig\<lparr>autoSave := Present False\<rparr>"

definition emptyWorld :: World where
  "emptyWorld = \<lparr>requests = [], console = []\<rparr>"

definition okNet :: "unit Transport" where
  "okNet request = Responded \<lparr>status = 201, statusText = ''Created'', json = Inr ()\<rparr>"

definition helloMessage :: Message where
  "helloMessage = TextMessage ''m1'' User ''Hello'' (NewDate ''t0'')"

text \<open>An agent-state message whose state holds a \<open>bigint\<close>.\<close>

definition bigIntMessage :: Message where
  "bigIntMessage =
     AgentStateMessage ''m2'' Assistant ''planner'' (JObject [(''steps'', JBigInt 3)])"

text \<open>Provider methods that leave a trace: each sends a request when it is called.\<close>

definition traced :: "string \<Rightarrow> AppWorld \<Rightarrow> AppWorld" where
  "traced name w =
     w\<lparr>requests := requests w @ [\<lparr>method_r = ''GET'', url = name, headers_r = [], body = None\<rparr>]\<rparr>"

definition tracedMethods :: ConversationMethods where
  "tracedMethods =
     \<lparr>loadConversations_cm = (\<lambda>w. (Inr (), traced ''loadConversations'' w)),
      loadConversation_cm = (\<lambda>i w. (Inr (Some []), traced ''loadConversation'' w)),
      createConversation_cm = (\<lambda>t w. (Inr ''new-id'', traced ''createConversation'' w)),
      deleteConversation_cm = (\<lambda>i w. (Inr (), traced ''deleteConversation'' w)),
      setCurrentConversation_cm =
        (\<lambda>i w. w\<lparr>conversationState := (conversationState w)\<lparr>currentConversationId := i\<rparr>\<rparr>),
      saveMessage_cm = (\<lambda>m w. (Inr (), traced ''saveMessage'' w)),
      clearError_cm = (\<lambda>w. w\<lparr>conversationState := (conversationState w)\<lparr>error_s := None\<rparr>\<rparr>),
      refreshConversations_cm = (\<lambda>w. (Inr (), traced ''refreshConversations'' w))\<rparr>"

definition disabledContext :: CopilotContext where
  "disabledContext = \<lparr>conversationConfig = None, conversationMethods = tracedMethods\<rparr>"

definition enabledContext :: CopilotContext where
  "enabledContext =
     \<lparr>conversationConfig = Some exampleUserConfig, conversationMethods = tracedMethods\<rparr>"

definition tripPlanning :: Conversation where
  "tripPlanning = \<lparr>id_c = ''c1'', userId_c = ''user-123'', title = ''Trip Planning'',
     createdAt_c = ''2024-01-01'', updatedAt_c = ''2024-01-03'',
     lastMessage = Some ''Book the hotel'', messageCount = Some 4\<rparr>"

definition budgetReview :: Conversation where
  "budgetReview = \<lparr>id_c = ''c2'', userId_c = ''user-123'', title = ''Budget Review'',
     createdAt_c = ''2024-01-02'', updatedAt_c = ''2024-01-02'',
     lastMessage = Some ''Q3 numbers'', messageCount = None\<rparr>"

text \<open>A conversation whose \<open>updatedAt\<close> is no date.\<close>

definition undated :: Conversation where
  "undated = \<lparr>id_c = ''c3'', userId_c = ''user-123'', title = ''Notes'',
     createdAt_c = ''2024-01-02'', updatedAt_c = ''yesterday'',
     lastMessage = None, messageCount = Some 1\<rparr>"

definition exampleState :: ConversationState where
  "exampleState = \<lparr>conversations = [tripPlanning, budgetReview], currentConversationId = Some ''c1'',
     isLoading = False, error_s = None, initialized = True\<rparr>"

definition exampleAppWorld :: AppWorld where
  "exampleAppWorld = \<lparr>requests = [], console = [], conversationState = exampleState\<rparr>"

text \<open>A date parser that knows the three days of the examples (as day numbers).\<close>

definition exampleDates :: "string \<Rightarrow> int option" where
  "exampleDates s =
     (if s = ''2024-01-01'' then Some 1
      else if s = ''2024-01-02'' then Some 2
      else if s = ''2024-01-03'' then Some 3
      else None)"

section \<open>Properties of the message codec\<close>

lemmas lower_defs = toLowerCase_def toLowerCaseChar_def upperCaseChars_def lowerCaseChars_def






text \<open>
  C6: the wire-to-host role mapping is total and default-safe. Its result is always one
  of the three named roles; a string that is \<open>user\<close>, \<open>assistant\<close> or \<open>system\<close> up to
  letter case maps to that role, and every other string maps to the user role.
\<close>

theorem mapApiRoleToCopilotRole_total:
  "mapApiRoleToCopilotRole apiRole \<in> {User, Assistant, System}
   \<and> (toLowerCase apiRole = ''user'' \<longrightarrow> mapApiRoleToCopilotRole apiRole = User)
   \<and> (toLowerCase apiRole = ''assistant'' \<longrightarrow> mapApiRoleToCopilotRole apiRole = Assistant)
   \<and> (toLowerCase apiRole = ''system'' \<longrightarrow> mapApiRoleToCopilotRole apiRole = System)
   \<and> (toLowerCase apiRole \<notin> {''user'', ''assistant'', ''system''}
        \<longrightarrow> mapApiRoleToCopilotRole apiRole = User)"
  by (simp add: mapApiRoleToCopilotRole_def Let_def)

theorem mapApiRoleToCopilotRole_total_witness:
  "mapApiRoleToCopilotRole ''AssiStant'' = Assistant
   \<and> mapApiRoleToCopilotRole ''SYSTEM'' = System
   \<and> mapApiRoleToCopilotRole ''User'' = User
   \<and> mapApiRoleToCopilotRole ''tool'' = User
   \<and> mapApiRoleToCopilotRole [] = User"
  using mapApiRoleToCopilotRole_total [of "''AssiStant''"]
    mapApiRoleToCopilotRole_total [of "''SYSTEM''"]
    mapApiRoleToCopilotRole_total [of "''User''"]
    mapApiRoleToCopilotRole_total [of "''tool''"]
    mapApiRoleToCopilotRole_total [of "[]"]
  by (simp add: lower_defs)

section \<open>Properties of the persistence client\<close>

lemmas service_defs = fetch_def console_error_def catch_rethrow_def catch_swallow_def always_def
  stringify_def

lemma this_config_example:
  "this_autoSave exampleConfig = Some True"
  "this_endpoints exampleConfig = Some defaultEndpoints"
  "this_apiBaseUrl exampleConfig = ''https://api.example.com''"
  by (simp_all add: exampleConfig_def exampleUserConfig_def ConversationService_def)

text \<open>
  C2: \<open>saveMessage\<close> always resolves normally, whatever the transport does. It touches
  nothing of the world but the request log and the console. With auto-save on: when the
  request is sent (the endpoints are defined and the message serialises) and the transport
  rejects, or responds with a status outside 200-299, the failure is one line on the
  console; when the endpoints are \<open>undefined\<close> or the message does not serialise, the
  \<open>TypeError\<close> is one line on the console and nothing is sent.
\<close>

theorem saveMessage_never_rejects:
  "fst (saveMessage config net message conversationId w) = Inr ()
   \<and> World.more (snd (saveMessage config net message conversationId w)) = World.more w
   \<and> (this_autoSave config = Some True \<and> this_endpoints config \<noteq> None
        \<and> serialisable_message message \<longrightarrow>
        console (snd (saveMessage config (always (Rejected e)) message conversationId w))
          = console w @ [(''Error saving message:'', e)])
   \<and> (this_autoSave config = Some True \<and> this_endpoints config \<noteq> None
        \<and> serialisable_message message \<and> \<not> ok response \<longrightarrow>
        console (snd (saveMessage config (always (Responded response)) message conversationId w))
          = console w @ [(''Error saving message:'',
                          Error (''Failed to save message: '' @ statusText response))])
   \<and> (this_autoSave config = Some True \<and> this_endpoints config = None \<longrightarrow>
        saveMessage config net message conversationId w
          = (Inr (), w\<lparr>console := console w @ [(''Error saving message:'', undefinedEndpoints)]\<rparr>))
   \<and> (this_autoSave config = Some True \<and> this_endpoints config \<noteq> None
        \<and> \<not> serialisable_message message \<longrightarrow>
        saveMessage config net message conversationId w
          = (Inr (), w\<lparr>console := console w @
               [(''Error saving message:'', TypeError ''Do not know how to serialize a BigInt'')]\<rparr>))"
  by (auto simp: saveMessage_def saveMessage_try_def service_defs Let_def
      convertCopilotMessageToApiMessage_def
      split: FetchOutcome.splits prod.splits sum.splits option.splits)

theorem saveMessage_never_rejects_witness:
  "fst (saveMessage exampleConfig (always (Rejected (TypeError ''Failed to fetch'')))
          helloMessage ''c1'' emptyWorld) = Inr ()
   \<and> this_autoSave exampleConfig = Some True
   \<and> this_endpoints exampleConfig \<noteq> None
   \<and> serialisable_message helloMessage
   \<and> console (snd (saveMessage exampleConfig (always (Rejected (TypeError ''Failed to fetch'')))
          helloMessage ''c1'' emptyWorld))
      = [(''Error saving message:'', TypeError ''Failed to fetch'')]
   \<and> \<not> ok \<lparr>status = 500, statusText = ''Internal Server Error'', json = Inr ()\<rparr>
   \<and> console (snd (saveMessage exampleConfig
          (always (Responded \<lparr>status = 500, statusText = ''Internal Server Error'', json = Inr ()\<rparr>))
          helloMessage ''c1'' emptyWorld))
      = [(''Error saving message:'', Error ''Failed to save message: Internal Server Error'')]
   \<and> \<not> serialisable_message bigIntMessage
   \<and> saveMessage exampleConfig okNet bigIntMessage ''c1'' emptyWorld
      = (Inr (), \<lparr>requests = [], console =
           [(''Error saving message:'', TypeError ''Do not know how to serialize a BigInt'')]\<rparr>)"
  using saveMessage_never_rejects [of exampleConfig "always (Rejected (TypeError ''Failed to fetch''))"
      helloMessage "''c1''" emptyWorld
      "TypeError ''Failed to fetch''"
      "\<lparr>status = 500, statusText = ''Internal Server Error'', json = Inr ()\<rparr>"]
    saveMessage_never_rejects [of exampleConfig okNet bigIntMessage "''c1''" emptyWorld]
  by (simp add: this_config_example emptyWorld_def ok_def helloMessage_def bigIntMessage_def)

text \<open>
  C5, as the code has it. With \<open>autoSave\<close> false, or present with the value
  \<open>undefined\<close>, \<open>saveMessage\<close> resolves at once and leaves the world as it was, so it
  sends nothing. With \<open>autoSave\<close> true (set, or left to its default), endpoints that are
  defined and a message that serialises, each call sends exactly one request: a POST of
  the encoded message to the \<open>/messages\<close> path under the given conversation id. With
  \<open>autoSave\<close> true and endpoints \<open>undefined\<close> or a message that does not serialise, the
  call sends nothing and logs one line.
\<close>

theorem saveMessage_autoSave_gate:
  "(autoSave cfg = Present False \<or> autoSave cfg = Undefined \<longrightarrow>
      saveMessage (ConversationService cfg) net message conversationId w = (Inr (), w))
   \<and> ((autoSave cfg = Present True \<or> autoSave cfg = Absent)
        \<and> this_endpoints (ConversationService cfg) = Some ep
        \<and> serialisable_message message \<longrightarrow>
      requests (snd (saveMessage (ConversationService cfg) net message conversationId w))
        = requests w @
          [\<lparr>method_r = ''POST'',
            url = apiBaseUrl cfg @ template (conversations_ep ep)
                  @ ''/'' @ conversationId @ ''/messages'',
            headers_r = requestHeaders (ConversationService cfg),
            body = Some (MessageBody
                     (convertCopilotMessageToApiMessage (ConversationService cfg) message conversationId))\<rparr>])
   \<and> ((autoSave cfg = Present True \<or> autoSave cfg = Absent)
        \<and> (endpoints cfg = Undefined \<or> \<not> serialisable_message message) \<longrightarrow>
      requests (snd (saveMessage (ConversationService cfg) net message conversationId w)) = requests w
      \<and> length (console (snd (saveMessage (ConversationService cfg) net message conversationId w)))
          = Suc (length (console w)))"
  by (auto simp: saveMessage_def saveMessage_try_def service_defs Let_def ConversationService_def
      convertCopilotMessageToApiMessage_def
      split: FetchOutcome.splits prod.splits sum.splits option.splits Optional.splits)

theorem saveMessage_autoSave_gate_witness:
  "autoSave autoSaveOff = Present False
   \<and> saveMessage (ConversationService autoSaveOff) okNet helloMessage ''c1'' emptyWorld
       = (Inr (), emptyWorld)
   \<and> autoSave autoSaveOn = Present True
   \<and> this_endpoints (ConversationService autoSaveOn) = Some defaultEndpoints
   \<and> serialisable_message helloMessage
   \<and> map url (requests (snd (saveMessage (ConversationService autoSaveOn) okNet
                                helloMessage ''c1'' emptyWorld)))
       = [''https://api.example.com/conversations/c1/messages'']"
proof -
  have 1: "autoSave autoSaveOff = Present False"
    by (simp add: autoSaveOff_def)
  have 2: "autoSave autoSaveOn = Present True"
    by (simp add: autoSaveOn_def)
  have 3: "this_endpoints (ConversationService autoSaveOn) = Some defaultEndpoints"
    by (simp add: autoSaveOn_def exampleUserConfig_def ConversationService_def)
  have 4: "serialisable_message helloMessage"
    by (simp add: helloMessage_def)
  show ?thesis
    using 1 2 3 4
      saveMessage_autoSave_gate [of autoSaveOff okNet helloMessage "''c1''" emptyWorld]
      saveMessage_autoSave_gate [of autoSaveOn okNet helloMessage "''c1''" emptyWorld defaultEndpoints]
    by (simp add: emptyWorld_def defaultEndpoints_def autoSaveOn_def exampleUserConfig_def)
qed

text \<open>
  C5 as stated fails: with \<open>autoSave: true\<close>, saving an agent-state message whose state
  holds a \<open>bigint\<close> sends no request, because \<open>JSON.stringify\<close> throws inside the
  \<open>try\<close> block before \<open>fetch\<close> is called.
\<close>

theorem saveMessage_unserialisable_counterexample:
  "autoSave autoSaveOn = Present True
   \<and> requests (snd (saveMessage (ConversationService autoSaveOn) okNet
                       bigIntMessage ''c1'' emptyWorld)) = []"
  by (simp add: saveMessage_def saveMessage_try_def service_defs Let_def ConversationService_def
      convertCopilotMessageToApiMessage_def autoSaveOn_def exampleUserConfig_def
      bigIntMessage_def emptyWorld_def)

text \<open>
  C4, as the code has it. When the request is sent (the endpoints are defined and, for an
  update, its values serialise), a response with a status outside 200-299 makes each of
  the five throwing operations (list, list-messages, create, delete, update) reject with
  a plain \<open>Error\<close> whose message is the operation's fixed prefix followed by the
  response's \<open>statusText\<close>; the numeric status is not part of the error.
\<close>

theorem non_ok_rejects_with_statusText:
  assumes "\<not> (200 \<le> s \<and> s \<le> 299)" and "this_endpoints config \<noteq> None"
  shows "fst (getConversations config
                (always (Responded \<lparr>status = s, statusText = t, json = j1\<rparr>)) w)
           = Inl (Error (''Failed to fetch conversations: '' @ t))
       \<and> fst (getConversationMessages config
                (always (Responded \<lparr>status = s, statusText = t, json = j2\<rparr>)) conversationId w)
           = Inl (Error (''Failed to fetch conversation messages: '' @ t))
       \<and> fst (createConversation config
                (always (Responded \<lparr>status = s, statusText = t, json = j3\<rparr>)) now title_opt w)
           = Inl (Error (''Failed to create conversation: '' @ t))
       \<and> fst (deleteConversation config
                (always (Responded \<lparr>status = s, statusText = t, json = j4\<rparr>)) conversationId w)
           = Inl (Error (''Failed to delete conversation: '' @ t))
       \<and> (serialisable (JObject updates) \<longrightarrow>
            fst (updateConversation config
                  (always (Responded \<lparr>status = s, statusText = t, json = j5\<rparr>)) conversationId updates w)
             = Inl (Error (''Failed to update conversation: '' @ t)))"
  using assms
  by (auto simp: getConversations_def getConversations_try_def
      getConversationMessages_def getConversationMessages_try_def
      createConversation_def createConversation_try_def
      deleteConversation_def deleteConversation_try_def
      updateConversation_def updateConversation_try_def service_defs ok_def)

theorem non_ok_rejects_with_statusText_witness:
  "\<not> (200 \<le> (404::nat) \<and> (404::nat) \<le> 299)
   \<and> this_endpoints exampleConfig \<noteq> None
   \<and> fst (getConversations exampleConfig
            (always (Responded \<lparr>status = 404, statusText = ''Not Found'', json = Inr JNull\<rparr>))
            emptyWorld)
       = Inl (Error ''Failed to fetch conversations: Not Found'')
   \<and> fst (deleteConversation exampleConfig
            (always (Responded \<lparr>status = 404, statusText = ''Not Found'', json = Inr ()\<rparr>))
            ''c1'' emptyWorld)
       = Inl (Error ''Failed to delete conversation: Not Found'')
   \<and> serialisable (JObject [(''title'', JString ''Trip'')])
   \<and> fst (updateConversation exampleConfig
            (always (Responded \<lparr>status = 404, statusText = ''Not Found'', json = Inr ()\<rparr>))
            ''c1'' [(''title'', JString ''Trip'')] emptyWorld)
       = Inl (Error ''Failed to update conversation: Not Found'')"
proof -
  have 1: "\<not> (200 \<le> (404::nat) \<and> (404::nat) \<le> 299)" by simp
  have 2: "this_endpoints exampleConfig \<noteq> None" by (simp add: this_config_example)
  have 3: "serialisable (JObject [(''title'', JString ''Trip'')])" by simp
  show ?thesis
    using 1 2 3
      non_ok_rejects_with_statusText [OF 1 2, of "''Not Found''" "Inr JNull" emptyWorld
        "Inr []" "''c1''" "Inr \<lparr>id_cr = None, conversationId_cr = None, underscore_id_cr = None\<rparr>"
        "''now''" None "Inr ()" "[(''title'', JString ''Trip'')]" "Inr ()"]
    by simp
qed

text \<open>
  C4 as stated fails: a 404 and a 500 with the same (here empty, as over HTTP/2) status
  text make \<open>getConversations\<close> reject with one and the same error, so the error does not
  carry the status.
\<close>

theorem error_carries_status_counterexample:
  "status \<lparr>status = 404, statusText = [], json = Inr JNull\<rparr>
     \<noteq> status \<lparr>status = 500, statusText = [], json = Inr JNull\<rparr>
   \<and> \<not> ok \<lparr>status = 404, statusText = [], json = Inr JNull\<rparr>
   \<and> \<not> ok \<lparr>status = 500, statusText = [], json = Inr JNull\<rparr>
   \<and> fst (getConversations exampleConfig
            (always (Responded \<lparr>status = 404, statusText = [], json = Inr JNull\<rparr>)) emptyWorld)
       = fst (getConversations exampleConfig
            (always (Responded \<lparr>status = 500, statusText = [], json = Inr JNull\<rparr>)) emptyWorld)"
  by (simp add: getConversations_def getConversations_try_def service_defs ok_def
      this_config_example)

text \<open>
  C7, as the code has it. For a response with a status in 200-299 to the request (the
  endpoints being defined): when the body parses to an array, \<open>getConversations\<close>
  resolves with its elements; when it parses to anything else, with the empty list; in
  both cases one GET was sent and nothing was logged. When \<open>response.json()\<close> rejects,
  the error is logged on the console and \<open>getConversations\<close> rejects with it.
\<close>

theorem getConversations_ok_parsed:
  assumes "ok response" and "this_endpoints config = Some ep"
  shows "(json response = Inr (JArray xs) \<longrightarrow>
            getConversations config (always (Responded response)) w
              = (Inr xs, w\<lparr>requests := requests w @
                   [\<lparr>method_r = ''GET'',
                     url = this_apiBaseUrl config @ template (conversations_ep ep)
                           @ ''?userId='' @ this_userId config,
                     headers_r = requestHeaders config, body = None\<rparr>]\<rparr>))
       \<and> (json response = Inr v \<and> (\<forall>ys. v \<noteq> JArray ys) \<longrightarrow>
            getConversations config (always (Responded response)) w
              = (Inr [], w\<lparr>requests := requests w @
                   [\<lparr>method_r = ''GET'',
                     url = this_apiBaseUrl config @ template (conversations_ep ep)
                           @ ''?userId='' @ this_userId config,
                     headers_r = requestHeaders config, body = None\<rparr>]\<rparr>))
       \<and> (json response = Inl e \<longrightarrow>
            getConversations config (always (Responded response)) w
              = (Inl e, w\<lparr>requests := requests w @
                   [\<lparr>method_r = ''GET'',
                     url = this_apiBaseUrl config @ template (conversations_ep ep)
                           @ ''?userId='' @ this_userId config,
                     headers_r = requestHeaders config, body = None\<rparr>],
                   console := console w @ [(''Error fetching conversations:'', e)]\<rparr>))"
  using assms
  by (auto simp: getConversations_def getConversations_try_def service_defs split: JsValue.splits)

theorem getConversations_ok_parsed_witness:
  "ok \<lparr>status = 200, statusText = ''OK'',
        json = Inr (JArray [JObject [(''id'', JString ''c1''), (''title'', JString ''Trip Planning'')],
                            JObject [(''id'', JString ''c2''), (''title'', JString ''Budget Review'')]])\<rparr>
   \<and> this_endpoints exampleConfig = Some defaultEndpoints
   \<and> fst (getConversations exampleConfig
        (always (Responded \<lparr>status = 200, statusText = ''OK'',
           json = Inr (JArray [JObject [(''id'', JString ''c1''), (''title'', JString ''Trip Planning'')],
                               JObject [(''id'', JString ''c2''), (''title'', JString ''Budget Review'')]])\<rparr>))
        emptyWorld)
       = Inr [JObject [(''id'', JString ''c1''), (''title'', JString ''Trip Planning'')],
              JObject [(''id'', JString ''c2''), (''title'', JString ''Budget Review'')]]
   \<and> fst (getConversations exampleConfig
        (always (Responded \<lparr>status = 200, statusText = ''OK'', json = Inr (JArray [])\<rparr>))
        emptyWorld) = Inr []
   \<and> fst (getConversations exampleConfig
        (always (Responded \<lparr>status = 200, statusText = ''OK'', json = Inr JNull\<rparr>))
        emptyWorld) = Inr []
   \<and> getConversations exampleConfig
        (always (Responded \<lparr>status = 200, statusText = ''OK'',
                   json = Inl (SyntaxError ''Unexpected token'')\<rparr>))
        emptyWorld
       = (Inl (SyntaxError ''Unexpected token''),
          \<lparr>requests = [\<lparr>method_r = ''GET'',
                         url = ''https://api.example.com/conversations?userId=user-123'',
                         headers_r = [(''Content-Type'', ''application/json''),
                                      (''Authorization'', ''Bearer t'')],
                         body = None\<rparr>],
           console = [(''Error fetching conversations:'', SyntaxError ''Unexpected token'')]\<rparr>)"
proof -
  have a: "ok \<lparr>status = 200, statusText = ''OK'',
        json = Inr (JArray [JObject [(''id'', JString ''c1''), (''title'', JString ''Trip Planning'')],
                            JObject [(''id'', JString ''c2''), (''title'', JString ''Budget Review'')]])\<rparr>"
    and b: "ok \<lparr>status = 200, statusText = ''OK'', json = Inr (JArray [])\<rparr>"
    and c: "ok \<lparr>status = 200, statusText = ''OK'', json = Inr JNull\<rparr>"
    and d: "ok \<lparr>status = 200, statusText = ''OK'',
                 json = (Inl (SyntaxError ''Unexpected token'') :: JsError + JsValue)\<rparr>"
    by (simp_all add: ok_def)
  have e: "this_endpoints exampleConfig = Some defaultEndpoints"
    by (simp add: this_config_example)
  show ?thesis
    using a e
      getConversations_ok_parsed [OF a e, of
        "[JObject [(''id'', JString ''c1''), (''title'', JString ''Trip Planning'')],
          JObject [(''id'', JString ''c2''), (''title'', JString ''Budget Review'')]]" emptyWorld]
      getConversations_ok_parsed [OF b e, of "[]" emptyWorld]
      getConversations_ok_parsed [OF c e, of "[]" emptyWorld JNull]
      getConversations_ok_parsed [OF d e, of "[]" emptyWorld JNull "SyntaxError ''Unexpected token''"]
    by (simp add: emptyWorld_def defaultEndpoints_def exampleConfig_def exampleUserConfig_def
        ConversationService_def requestHeaders_def)
qed

text \<open>
  C7 as stated fails: a 204 response has an empty body, \<open>response.json()\<close> rejects on
  it, and \<open>getConversations\<close> rejects although the status is in 200-299 and the body is
  not an array.
\<close>

theorem getConversations_unparsable_counterexample:
  "ok \<lparr>status = 204, statusText = ''No Content'',
       json = (Inl (SyntaxError ''Unexpected end of JSON input'') :: JsError + JsValue)\<rparr>
   \<and> fst (getConversations exampleConfig
        (always (Responded \<lparr>status = 204, statusText = ''No Content'',
                      json = Inl (SyntaxError ''Unexpected end of JSON input'')\<rparr>))
        emptyWorld) = Inl (SyntaxError ''Unexpected end of JSON input'')"
  by (simp add: getConversations_def getConversations_try_def service_defs ok_def
      this_config_example)

section \<open>Properties of the hooks\<close>

text \<open>
  C3: without a conversation configuration \<open>isEnabled\<close> is false, and the guarded hook
  operations do nothing: \<open>createNewConversation\<close> resolves with the empty string,
  \<open>removeConversation\<close>, \<open>refresh\<close> and \<open>switchToConversation\<close> resolve at once,
  \<open>clearCurrentConversation\<close> returns, and the auto-load effect does not load. Each
  leaves the whole world as it was (no request sent, the current conversation unchanged),
  whatever the provider's methods would do if called.
\<close>

theorem no_config_noop:
  assumes "conversationConfig context = None"
  shows "\<not> isEnabled context
       \<and> createNewConversation context title_opt w = (Inr [], w)
       \<and> removeConversation context conversationId w = (Inr (), w)
       \<and> refresh context w = (Inr (), w)
       \<and> switchToConversation context conversationId w = (Inr (), w)
       \<and> clearCurrentConversation context w = w
       \<and> autoLoadEffect context w = w"
  using assms
  by (simp add: isEnabled_def createNewConversation_def removeConversation_def refresh_def
      switchToConversation_def clearCurrentConversation_def autoLoadEffect_def)

theorem no_config_noop_witness:
  "conversationConfig disabledContext = None
   \<and> \<not> isEnabled disabledContext
   \<and> createNewConversation disabledContext (Some ''Trip Planning'') exampleAppWorld
       = (Inr [], exampleAppWorld)
   \<and> requests (snd (removeConversation disabledContext ''c1'' exampleAppWorld)) = []
   \<and> requests (snd (refresh disabledContext exampleAppWorld)) = []
   \<and> currentConversationId
        (conversationState (snd (switchToConversation disabledContext ''c2'' exampleAppWorld)))
       = Some ''c1''"
proof -
  have h: "conversationConfig disabledContext = None" by (simp add: disabledContext_def)
  show ?thesis
    using h no_config_noop [OF h, of "Some ''Trip Planning''" exampleAppWorld "''c1''"]
      no_config_noop [OF h, of None exampleAppWorld "''c2''"]
    by (simp add: exampleAppWorld_def exampleState_def)
qed

text \<open>With a configuration the same calls do reach the provider: two requests are traced.\<close>

lemma createNewConversation_enabled_example:
  "map url (requests (snd (createNewConversation enabledContext None exampleAppWorld)))
     = [''createConversation'', ''refreshConversations'']
   \<and> fst (createNewConversation enabledContext None exampleAppWorld) = Inr ''new-id''"
  by (simp add: createNewConversation_def isEnabled_def enabledContext_def tracedMethods_def
      traced_def exampleAppWorld_def)

subsection \<open>Search\<close>

text \<open>\<open>includes_str\<close> is occurrence as a contiguous run.\<close>

lemma includes_str_iff: "includes_str s sub \<longleftrightarrow> (\<exists>ps ss. s = ps @ sub @ ss)"
proof (induction s)
  case Nil
  then show ?case by auto
next
  case (Cons c cs)
  have start: "startsWith (c # cs) sub \<longleftrightarrow> (\<exists>ss. c # cs = sub @ ss)"
    unfolding startsWith_def
    by (metis append_eq_conv_conj append_take_drop_id)
  show ?case
  proof
    assume "includes_str (c # cs) sub"
    then consider "startsWith (c # cs) sub" | "includes_str cs sub" by auto
    then show "\<exists>ps ss. c # cs = ps @ sub @ ss"
    proof cases
      case 1
      with start obtain ss where "c # cs = [] @ sub @ ss" by auto
      then show ?thesis by blast
    next
      case 2
      with Cons.IH obtain ps ss where "cs = ps @ sub @ ss" by blast
      then have "c # cs = (c # ps) @ sub @ ss" by simp
      then show ?thesis by blast
    qed
  next
    assume "\<exists>ps ss. c # cs = ps @ sub @ ss"
    then obtain ps ss where e: "c # cs = ps @ sub @ ss" by blast
    show "includes_str (c # cs) sub"
    proof (cases ps)
      case Nil
      with e start have "startsWith (c # cs) sub" by auto
      then show ?thesis by simp
    next
      case (Cons p ps')
      with e have "cs = ps' @ sub @ ss" by simp
      with Cons.IH have "includes_str cs sub" by blast
      then show ?thesis by simp
    qed
  qed
qed






lemma all_dropWhile: "(\<forall>x \<in> set (dropWhile P s). P x) \<longleftrightarrow> (\<forall>x \<in> set s. P x)"
  by (induction s) auto

lemma trim_Nil_iff: "trim s = [] \<longleftrightarrow> (\<forall>c \<in> set s. isWhiteSpace c)"
  by (simp add: trim_def all_dropWhile)






text \<open>
  C9: with the feature enabled, a query of white space only (the empty query included)
  returns the whole conversation list unchanged; any other query keeps exactly the
  conversations whose lower-cased title or lower-cased last-message preview contains the
  lower-cased query, so a conversation whose preview matches is found also when its title
  does not match.
\<close>

theorem search_blank_and_lastMessage:
  assumes "isEnabled context"
  shows "((\<forall>c \<in> set query. isWhiteSpace c) \<longrightarrow>
            searchConversations context st query = conversations st)
       \<and> (\<not> (\<forall>c \<in> set query. isWhiteSpace c) \<longrightarrow>
            searchConversations context st query =
              filter (\<lambda>c. includes_str (toLowerCase (title c)) (toLowerCase query)
                          \<or> (\<exists>m. lastMessage c = Some m
                                  \<and> includes_str (toLowerCase m) (toLowerCase query)))
                (conversations st))
       \<and> (conversation \<in> set (conversations st) \<and> lastMessage conversation = Some preview
            \<and> includes_str (toLowerCase preview) (toLowerCase query) \<longrightarrow>
            conversation \<in> set (searchConversations context st query))"
proof -
  have eq: "(\<lambda>c. includes_str (toLowerCase (title c)) (toLowerCase query)
                 \<or> (case lastMessage c of None \<Rightarrow> False
                     | Some m \<Rightarrow> includes_str (toLowerCase m) (toLowerCase query)))
          = (\<lambda>c. includes_str (toLowerCase (title c)) (toLowerCase query)
                 \<or> (\<exists>m. lastMessage c = Some m
                         \<and> includes_str (toLowerCase m) (toLowerCase query)))"
    by (rule ext) (simp split: option.splits)
  show ?thesis
    using assms
    by (auto simp: searchConversations_def Let_def trim_Nil_iff eq)
qed

theorem search_blank_and_lastMessage_witness:
  "isEnabled enabledContext
   \<and> isWhiteSpace (CHR 0x20) \<and> isWhiteSpace (CHR 0x09)
   \<and> searchConversations enabledContext exampleState [CHR 0x20, CHR 0x09, CHR 0x20]
       = [tripPlanning, budgetReview]
   \<and> searchConversations enabledContext exampleState [] = [tripPlanning, budgetReview]
   \<and> tripPlanning \<in> set (conversations exampleState)
   \<and> lastMessage tripPlanning = Some ''Book the hotel''
   \<and> includes_str (toLowerCase ''Book the hotel'') (toLowerCase ''Hotel'')
   \<and> \<not> includes_str (toLowerCase (title tripPlanning)) (toLowerCase ''Hotel'')
   \<and> tripPlanning \<in> set (searchConversations enabledContext exampleState ''Hotel'')"
proof -
  have 1: "isEnabled enabledContext"
    by (simp add: isEnabled_def enabledContext_def)
  have 2: "\<forall>c \<in> set [CHR 0x20, CHR 0x09, CHR 0x20]. isWhiteSpace c"
    by (simp add: isWhiteSpace_def)
  have 3: "conversations exampleState = [tripPlanning, budgetReview]"
    by (simp add: exampleState_def)
  have 4: "lastMessage tripPlanning = Some ''Book the hotel''"
    by (simp add: tripPlanning_def)
  have 5: "includes_str (toLowerCase ''Book the hotel'') (toLowerCase ''Hotel'')"
    by (simp add: lower_defs startsWith_def)
  have 6: "\<not> includes_str (toLowerCase (title tripPlanning)) (toLowerCase ''Hotel'')"
    by (simp add: tripPlanning_def lower_defs startsWith_def)
  show ?thesis
    using 1 2 3 4 5 6
      search_blank_and_lastMessage [OF 1, of "[CHR 0x20, CHR 0x09, CHR 0x20]" exampleState]
      search_blank_and_lastMessage [OF 1, of "[]" exampleState]
      search_blank_and_lastMessage [OF 1, of "''Hotel''" exampleState tripPlanning "''Book the hotel''"]
    by simp
qed

subsection \<open>Sorting\<close>

text \<open>The reference arrangement is a rearrangement.\<close>

lemma mset_insert_sorted: "mset (insert_sorted cmp x ys) = add_mset x (mset ys)"
  by (induction ys) simp_all

lemma mset_stable_sort: "mset (stable_sort cmp xs) = mset xs"
  by (induction xs) (simp_all add: stable_sort_def mset_insert_sorted)

lemma set_insert_sorted: "set (insert_sorted cmp x ys) = insert x (set ys)"
  by (induction ys) auto

lemma set_stable_sort: "set (stable_sort cmp xs) = set xs"
  by (induction xs) (simp_all add: stable_sort_def set_insert_sorted)

text \<open>The stable insertion sort is one of the engines the language allows.\<close>

lemma ecmaSort_stable_sort: "ecmaSort stable_sort"
  by (simp add: ecmaSort_def mset_stable_sort)

text \<open>For a consistent comparator, \<open>cmp a b \<le> 0\<close> is total and transitive.\<close>

lemma consistent_flip:
  assumes "consistent_on A cmp" and "a \<in> A" and "b \<in> A" and "cmp a b > 0"
  shows "cmp b a < 0"
proof (rule ccontr)
  assume "\<not> cmp b a < 0"
  then consider "cmp b a = 0" | "cmp b a > 0" by linarith
  then show False
  proof cases
    case 1
    with assms(1-3) have "cmp a b = 0" unfolding consistent_on_def by blast
    with assms(4) show False by simp
  next
    case 2
    with assms have "cmp a a > 0" unfolding consistent_on_def by blast
    moreover from assms(1,2) have "cmp a a = 0" unfolding consistent_on_def by blast
    ultimately show False by simp
  qed
qed

lemma consistent_total:
  assumes "consistent_on A cmp" and "a \<in> A" and "b \<in> A"
  shows "cmp a b \<le> 0 \<or> cmp b a \<le> 0"
  using consistent_flip [OF assms] by fastforce

lemma consistent_le_trans:
  assumes c: "consistent_on A cmp" and "a \<in> A" and "b \<in> A" and "c \<in> A"
    and ab: "cmp a b \<le> 0" and bc: "cmp b c \<le> 0"
  shows "cmp a c \<le> 0"
proof (rule ccontr)
  assume "\<not> cmp a c \<le> 0"
  then have ac: "cmp a c > 0" by simp
  then have ca: "cmp c a < 0" using consistent_flip [OF c \<open>a \<in> A\<close> \<open>c \<in> A\<close>] by simp
  consider "cmp a b < 0" | "cmp a b = 0" using ab by linarith
  then show False
  proof cases
    case 1
    with ca c assms(2-4) have "cmp c b < 0" unfolding consistent_on_def by blast
    moreover
    from bc consider "cmp b c < 0" | "cmp b c = 0" by linarith
    then have "\<not> cmp c b < 0"
    proof cases
      case 1
      with \<open>cmp c b < 0\<close> c assms(2-4) have "cmp c c < 0" unfolding consistent_on_def by blast
      moreover from c assms(4) have "cmp c c = 0" unfolding consistent_on_def by blast
      ultimately show ?thesis by simp
    next
      case 2
      with c assms(2-4) have "cmp c b = 0" unfolding consistent_on_def by blast
      then show ?thesis by simp
    qed
    ultimately show False by simp
  next
    case 2
    with c assms(2-4) have ba: "cmp b a = 0" unfolding consistent_on_def by blast
    from bc consider "cmp b c < 0" | "cmp b c = 0" by linarith
    then show False
    proof cases
      case 1
      with ca c assms(2-4) have "cmp b a < 0" unfolding consistent_on_def by blast
      with ba show False by simp
    next
      case 2
      with \<open>cmp a b = 0\<close> c assms(2-4) have "cmp a c = 0" unfolding consistent_on_def by blast
      with ac show False by simp
    qed
  qed
qed

text \<open>So the reference arrangement is in ascending order by the comparator.\<close>

lemma sorted_insert_sorted:
  assumes "consistent_on A cmp" and "x \<in> A" and "set ys \<subseteq> A"
    and "sorted_wrt (\<lambda>a b. cmp a b \<le> 0) ys"
  shows "sorted_wrt (\<lambda>a b. cmp a b \<le> 0) (insert_sorted cmp x ys)"
  using assms(3,4)
proof (induction ys)
  case Nil
  then show ?case by simp
next
  case (Cons y ys)
  from Cons.prems have yA: "y \<in> A" by simp
  show ?case
  proof (cases "cmp x y \<le> 0")
    case True
    have "cmp x z \<le> 0" if "z \<in> set ys" for z
    proof -
      from Cons.prems that have "cmp y z \<le> 0" and "z \<in> A" by auto
      with True show ?thesis
        using consistent_le_trans [OF assms(1,2) yA] by blast
    qed
    with True Cons.prems show ?thesis by auto
  next
    case False
    then have yx: "cmp y x \<le> 0"
      using consistent_total [OF assms(1,2) yA] by simp
    from Cons have "sorted_wrt (\<lambda>a b. cmp a b \<le> 0) (insert_sorted cmp x ys)" by simp
    with False yx Cons.prems show ?thesis
      by (auto simp: set_insert_sorted)
  qed
qed

lemma sorted_stable_sort:
  assumes "consistent_on A cmp" and "set xs \<subseteq> A"
  shows "sorted_wrt (\<lambda>a b. cmp a b \<le> 0) (stable_sort cmp xs)"
  using assms(2)
proof (induction xs)
  case Nil
  then show ?case by (simp add: stable_sort_def)
next
  case (Cons x xs)
  then have "sorted_wrt (\<lambda>a b. cmp a b \<le> 0) (stable_sort cmp xs)" by simp
  moreover have "set (stable_sort cmp xs) \<subseteq> A"
    using Cons.prems by (simp add: set_stable_sort)
  moreover have "x \<in> A" using Cons.prems by simp
  ultimately have "sorted_wrt (\<lambda>a b. cmp a b \<le> 0) (insert_sorted cmp x (stable_sort cmp xs))"
    using sorted_insert_sorted [OF assms(1)] by blast
  then show ?case by (simp add: stable_sort_def)
qed

text \<open>And it keeps elements the comparator calls equal in their former order.\<close>

lemma filter_insert_sorted:
  assumes "consistent_on A cmp" and "a \<in> A" and "x \<in> A" and "set ys \<subseteq> A"
  shows "filter (\<lambda>z. cmp a z = 0) (insert_sorted cmp x ys)
           = (if cmp a x = 0 then x # filter (\<lambda>z. cmp a z = 0) ys
              else filter (\<lambda>z. cmp a z = 0) ys)"
  using assms(4)
proof (induction ys)
  case Nil
  then show ?case by simp
next
  case (Cons y ys)
  then have yA: "y \<in> A" by simp
  show ?case
  proof (cases "cmp x y \<le> 0")
    case True
    then show ?thesis by simp
  next
    case False
    have "cmp a y \<noteq> 0" if ax: "cmp a x = 0"
    proof
      assume ay: "cmp a y = 0"
      from ax assms(1-3) have "cmp x a = 0" unfolding consistent_on_def by blast
      with ay assms(1-3) yA have "cmp x y = 0" unfolding consistent_on_def by blast
      with False show False by simp
    qed
    with False Cons show ?thesis by simp
  qed
qed

lemma stable_stable_sort:
  assumes "consistent_on A cmp" and "a \<in> A" and "set xs \<subseteq> A"
  shows "filter (\<lambda>z. cmp a z = 0) (stable_sort cmp xs) = filter (\<lambda>z. cmp a z = 0) xs"
  using assms(3)
proof (induction xs)
  case Nil
  then show ?case by (simp add: stable_sort_def)
next
  case (Cons x xs)
  then have "filter (\<lambda>z. cmp a z = 0) (stable_sort cmp xs) = filter (\<lambda>z. cmp a z = 0) xs"
    by simp
  moreover have "set (stable_sort cmp xs) \<subseteq> A" "x \<in> A"
    using Cons.prems by (simp_all add: set_stable_sort)
  ultimately show ?case
    using filter_insert_sorted [OF assms(1,2), of x "stable_sort cmp xs"]
    by (simp add: stable_sort_def)
qed

text \<open>\<open><\<close> on strings is a strict linear order.\<close>

lemma lessThan_str_irrefl: "\<not> lessThan_str a a"
  by (induction a) simp_all

lemma lessThan_str_trans: "lessThan_str a b \<Longrightarrow> lessThan_str b c \<Longrightarrow> lessThan_str a c"
proof (induction a b arbitrary: c rule: lessThan_str.induct)
  case 1
  then show ?case by simp
next
  case (2 y ys)
  then show ?case by (cases c) simp_all
next
  case (3 x xs)
  then show ?case by simp
next
  case (4 x xs y ys)
  then show ?case by (cases c) auto
qed

lemma lessThan_str_total: "a \<noteq> b \<Longrightarrow> lessThan_str a b \<or> lessThan_str b a"
proof (induction a b rule: lessThan_str.induct)
  case (4 x xs y ys)
  show ?case
  proof (cases "x = y")
    case True
    with 4 show ?thesis by auto
  next
    case False
    then have "(of_char x :: nat) \<noteq> of_char y" by simp
    then have "(of_char x :: nat) < of_char y \<or> (of_char y :: nat) < of_char x" by linarith
    then show ?thesis by auto
  qed
qed simp_all

lemma lessThan_str_asym: "lessThan_str a b \<Longrightarrow> \<not> lessThan_str b a"
  using lessThan_str_irrefl lessThan_str_trans by blast

text \<open>So is \<open><\<close> on sort values of one kind.\<close>

lemma lessThan_v_asym: "lessThan_v a b \<Longrightarrow> \<not> lessThan_v b a"
  by (cases a; cases b) (auto dest: lessThan_str_asym)

lemma lessThan_v_trans: "lessThan_v a b \<Longrightarrow> lessThan_v b c \<Longrightarrow> lessThan_v a c"
  by (cases a; cases b; cases c) (auto dest: lessThan_str_trans)

lemma lessThan_v_total: "sameKind a b \<Longrightarrow> a \<noteq> b \<Longrightarrow> lessThan_v a b \<or> lessThan_v b a"
  by (cases a; cases b) (auto dest: lessThan_str_total)

lemma sameKind_sym: "sameKind a b \<Longrightarrow> sameKind b a"
  by (cases a; cases b) simp_all

text \<open>The sign of the comparator, for two sort values of one kind.\<close>

lemma compareFn_sign:
  assumes "sortValue getTime sortBy a = Some va" and "sortValue getTime sortBy b = Some vb"
    and "sameKind va vb"
  shows "(compareFn getTime sortBy order' a b = 0 \<longleftrightarrow> va = vb)
       \<and> (compareFn getTime sortBy order' a b < 0 \<longleftrightarrow>
            (if order' = Asc then lessThan_v va vb else lessThan_v vb va))
       \<and> (compareFn getTime sortBy order' a b > 0 \<longleftrightarrow>
            (if order' = Asc then lessThan_v vb va else lessThan_v va vb))"
  using assms lessThan_v_asym [of va vb] lessThan_v_asym [of vb va]
    lessThan_v_total [OF assms(3)]
  by (auto simp: compareFn_def greaterThan_v_def)

lemma sortValue_sameKind:
  assumes "validDates getTime sortBy A" and "a \<in> A" and "b \<in> A" and "sortBy \<noteq> OtherKey"
  shows "\<exists>va vb. sortValue getTime sortBy a = Some va \<and> sortValue getTime sortBy b = Some vb
           \<and> sameKind va vb"
  using assms
  by (cases sortBy) (auto simp: validDates_def timeValue_def messageCountOrZero_def split: option.splits)

text \<open>The comparator is consistent unless a date that the key reads does not parse.\<close>

lemma compareFn_consistent:
  assumes "validDates getTime sortBy A"
  shows "consistent_on A (compareFn getTime sortBy order')"
proof (cases "sortBy = OtherKey")
  case True
  then show ?thesis by (simp add: consistent_on_def compareFn_def)
next
  case False
  have "compareFn getTime sortBy order' a a = 0
        \<and> (compareFn getTime sortBy order' a b = 0 \<longrightarrow> compareFn getTime sortBy order' b a = 0)
        \<and> (compareFn getTime sortBy order' a b = 0 \<and> compareFn getTime sortBy order' b c = 0
             \<longrightarrow> compareFn getTime sortBy order' a c = 0)
        \<and> (compareFn getTime sortBy order' a b < 0 \<and> compareFn getTime sortBy order' b c < 0
             \<longrightarrow> compareFn getTime sortBy order' a c < 0)
        \<and> (compareFn getTime sortBy order' a b > 0 \<and> compareFn getTime sortBy order' b c > 0
             \<longrightarrow> compareFn getTime sortBy order' a c > 0)"
    if "a \<in> A" "b \<in> A" "c \<in> A" for a b c
  proof -
    from sortValue_sameKind [OF assms that(1,2) False] obtain va vb
      where v: "sortValue getTime sortBy a = Some va" "sortValue getTime sortBy b = Some vb"
        "sameKind va vb" by blast
    from sortValue_sameKind [OF assms that(2,3) False] v(2) obtain vc
      where w: "sortValue getTime sortBy c = Some vc" "sameKind vb vc" by auto
    have k: "sameKind va va" "sameKind vb va" "sameKind va vc"
      using v(3) w(2) by (cases va; cases vb; cases vc; simp)+
    note s = compareFn_sign [OF v(1) v(1) k(1), of order'] compareFn_sign [OF v(1,2,3), of order']
      compareFn_sign [OF v(2) v(1) k(2), of order'] compareFn_sign [OF v(2) w(1) w(2), of order']
      compareFn_sign [OF v(1) w(1) k(3), of order']
    show ?thesis
      using s lessThan_v_trans [of va vb vc] lessThan_v_trans [of vc vb va]
      by (auto split: if_splits)
  qed
  then show ?thesis
    unfolding consistent_on_def by blast
qed

text \<open>
  C10, as the code has it. \<open>sortConversations\<close> does not mutate its input: for every
  engine, heap, input array, sort key and order, the input array and every other array
  that existed before the call are unchanged after it, and the returned reference is a
  new array. With the feature enabled its elements are a permutation of the input's, and
  when every date the key reads parses it is the input in ascending order by the
  comparator, equal elements in their former order. With the feature disabled it is
  empty.
\<close>

theorem sortConversations_fresh_copy:
  assumes "ecmaSort engine" and "conversations_ref < length h"
  shows "case sortConversations engine context getTime h conversations_ref sortBy order' of
           (r, h') \<Rightarrow>
             h' ! conversations_ref = h ! conversations_ref
             \<and> (\<forall>i < length h. h' ! i = h ! i)
             \<and> r = length h \<and> r \<noteq> conversations_ref \<and> length h' = Suc (length h)
             \<and> (isEnabled context \<longrightarrow> mset (h' ! r) = mset (h ! conversations_ref))
             \<and> (isEnabled context \<and> validDates getTime sortBy (set (h ! conversations_ref)) \<longrightarrow>
                  h' ! r = stable_sort (compareFn getTime sortBy order') (h ! conversations_ref)
                  \<and> sorted_wrt (\<lambda>a b. compareFn getTime sortBy order' a b \<le> 0) (h' ! r)
                  \<and> (\<forall>a \<in> set (h ! conversations_ref).
                        filter (\<lambda>z. compareFn getTime sortBy order' a z = 0) (h' ! r)
                          = filter (\<lambda>z. compareFn getTime sortBy order' a z = 0)
                              (h ! conversations_ref)))
             \<and> (\<not> isEnabled context \<longrightarrow> h' ! r = [])"
proof (cases "isEnabled context")
  case True
  then have s: "sortConversations engine context getTime h conversations_ref sortBy order'
      = (length h, (h @ [h ! conversations_ref])
           [length h := engine (compareFn getTime sortBy order') (h ! conversations_ref)])"
    by (simp add: sortConversations_def alloc_def sort_in_place_def)
  have perm: "mset (engine (compareFn getTime sortBy order') (h ! conversations_ref))
      = mset (h ! conversations_ref)"
    using assms(1) by (simp add: ecmaSort_def)
  have sorted: "engine (compareFn getTime sortBy order') (h ! conversations_ref)
        = stable_sort (compareFn getTime sortBy order') (h ! conversations_ref)
      \<and> sorted_wrt (\<lambda>a b. compareFn getTime sortBy order' a b \<le> 0)
          (engine (compareFn getTime sortBy order') (h ! conversations_ref))
      \<and> (\<forall>a \<in> set (h ! conversations_ref).
            filter (\<lambda>z. compareFn getTime sortBy order' a z = 0)
              (engine (compareFn getTime sortBy order') (h ! conversations_ref))
            = filter (\<lambda>z. compareFn getTime sortBy order' a z = 0) (h ! conversations_ref))"
    if v: "validDates getTime sortBy (set (h ! conversations_ref))"
  proof -
    have c: "consistent_on (set (h ! conversations_ref)) (compareFn getTime sortBy order')"
      using v by (rule compareFn_consistent)
    with assms(1) have e: "engine (compareFn getTime sortBy order') (h ! conversations_ref)
        = stable_sort (compareFn getTime sortBy order') (h ! conversations_ref)"
      unfolding ecmaSort_def by blast
    show ?thesis
      using sorted_stable_sort [OF c order_refl] stable_stable_sort [OF c _ order_refl]
      by (simp add: e)
  qed
  show ?thesis
    using assms(2) True perm sorted by (auto simp: s nth_append)
next
  case False
  then have s: "sortConversations engine context getTime h conversations_ref sortBy order'
      = (length h, h @ [[]])"
    by (simp add: sortConversations_def alloc_def)
  show ?thesis
    using assms(2) False by (simp add: s nth_append)
qed

theorem sortConversations_fresh_copy_witness:
  "(0::nat) < length [[tripPlanning, budgetReview]]
   \<and> isEnabled enabledContext
   \<and> snd (sortConversations stable_sort enabledContext exampleDates
             [[tripPlanning, budgetReview]] 0 Title Asc) ! 0
       = [tripPlanning, budgetReview]
   \<and> fst (sortConversations stable_sort enabledContext exampleDates
             [[tripPlanning, budgetReview]] 0 Title Asc) = 1
   \<and> snd (sortConversations stable_sort enabledContext exampleDates
             [[tripPlanning, budgetReview]] 0 Title Asc) ! 1
       = [budgetReview, tripPlanning]
   \<and> snd (sortConversations stable_sort enabledContext exampleDates
             [[budgetReview, tripPlanning]] 0 UpdatedAt Desc) ! 1
       = [tripPlanning, budgetReview]
   \<and> \<not> isEnabled disabledContext
   \<and> snd (sortConversations stable_sort disabledContext exampleDates
             [[tripPlanning, budgetReview]] 0 Title Asc) ! 1 = []"
proof -
  have 1: "(0::nat) < length [[tripPlanning, budgetReview]]"
    and 8: "(0::nat) < length [[budgetReview, tripPlanning]]" by simp_all
  have 2: "isEnabled enabledContext" by (simp add: isEnabled_def enabledContext_def)
  have 3: "\<not> isEnabled disabledContext" by (simp add: isEnabled_def disabledContext_def)
  have 4: "validDates exampleDates Title (set ([[tripPlanning, budgetReview]] ! 0))"
    by (simp add: validDates_def)
  have 5: "validDates exampleDates UpdatedAt (set ([[budgetReview, tripPlanning]] ! 0))"
    by (simp add: validDates_def exampleDates_def tripPlanning_def budgetReview_def)
  have 6: "stable_sort (compareFn exampleDates Title Asc) [tripPlanning, budgetReview]
      = [budgetReview, tripPlanning]"
    by (simp add: stable_sort_def compareFn_def greaterThan_v_def tripPlanning_def
        budgetReview_def lower_defs)
  have 7: "stable_sort (compareFn exampleDates UpdatedAt Desc) [budgetReview, tripPlanning]
      = [tripPlanning, budgetReview]"
    by (simp add: stable_sort_def compareFn_def greaterThan_v_def timeValue_def
        exampleDates_def tripPlanning_def budgetReview_def)
  show ?thesis
    using 1 2 3 4 5 6 7 8
      sortConversations_fresh_copy [OF ecmaSort_stable_sort 1, of enabledContext exampleDates Title Asc]
      sortConversations_fresh_copy [OF ecmaSort_stable_sort 8, of enabledContext exampleDates
        UpdatedAt Desc]
      sortConversations_fresh_copy [OF ecmaSort_stable_sort 1, of disabledContext exampleDates Title Asc]
    by (auto simp: case_prod_unfold)
qed

text \<open>
  C10 as stated fails on the order: when a date does not parse, the comparator calls the
  undated conversation equal to both others, and an engine the language allows (here the
  stable insertion sort; one that compares neighbours finds both pairs equal as well)
  returns the copy in the order of the input, with the later conversation before the
  earlier one although the order asked for is ascending.
\<close>

theorem sortConversations_undated_counterexample:
  "snd (sortConversations stable_sort enabledContext exampleDates
          [[tripPlanning, undated, budgetReview]] 0 UpdatedAt Asc) ! 1
     = [tripPlanning, undated, budgetReview]
   \<and> compareFn exampleDates UpdatedAt Asc tripPlanning undated = 0
   \<and> compareFn exampleDates UpdatedAt Asc undated budgetReview = 0
   \<and> compareFn exampleDates UpdatedAt Asc tripPlanning budgetReview = 1"
  by (simp add: sortConversations_def alloc_def sort_in_place_def stable_sort_def compareFn_def
      greaterThan_v_def timeValue_def exampleDates_def isEnabled_def enabledContext_def
      tripPlanning_def budgetReview_def undated_def)

end
